theory Spec2Isabelle
  imports Main
begin

section \<open>Go's net/url: escaping one path segment\<close>

text \<open>
  Both services belong to package \<open>gitlab\<close>. The instance-variable methods build their
  resource path with \<open>fmt.Sprintf("admin/ci/variables/%s", url.PathEscape(key))\<close>.
  \<open>url.PathEscape\<close> and its inverse \<open>url.PathUnescape\<close> are functions of Go's standard
  library (package \<open>net/url\<close>), not of the repository. They are written out here as
  \<open>net/url\<close> computes them in its path-segment mode, on Go strings, which are byte
  sequences (a \<open>char\<close> is one byte).
\<close>

definition upperhex :: string where
  "upperhex = ''0123456789ABCDEF''"

text \<open>
  \<open>shouldEscape(c, encodePathSegment)\<close>: letters and digits and the marks \<open>- _ . ~\<close>
  are kept; of the reserved characters \<open>$ & + , / : ; = ? @\<close> only \<open>/ ; , ?\<close> are
  escaped; every other byte is escaped.
\<close>

definition shouldEscape :: "char \<Rightarrow> bool" where
  "shouldEscape c =
     (let n = (of_char c :: nat) in
      if (97 \<le> n \<and> n \<le> 122) \<or> (65 \<le> n \<and> n \<le> 90) \<or> (48 \<le> n \<and> n \<le> 57) then False
      else if c \<in> set ''-_.~'' then False
      else if c \<in> set ''$&+,/:;=?@''
        then c = CHR ''/'' \<or> c = CHR '';'' \<or> c = CHR '','' \<or> c = CHR ''?''
      else True)"

text \<open>
  \<open>escape(s, encodePathSegment)\<close>: an escaped byte \<open>c\<close> becomes \<open>%\<close>,
  \<open>upperhex[c>>4]\<close>, \<open>upperhex[c&15]\<close>; any other byte is copied.
\<close>

fun escape :: "string \<Rightarrow> string" where
  "escape [] = []"
| "escape (c # cs) =
     (if shouldEscape c
      then CHR ''%'' # upperhex ! ((of_char c :: nat) div 16) # upperhex ! ((of_char c :: nat) mod 16)
             # escape cs
      else c # escape cs)"

definition PathEscape :: "string \<Rightarrow> string" where
  "PathEscape s = escape s"

definition ishex :: "char \<Rightarrow> bool" where
  "ishex c =
     (let n = (of_char c :: nat) in
      (48 \<le> n \<and> n \<le> 57) \<or> (97 \<le> n \<and> n \<le> 102) \<or> (65 \<le> n \<and> n \<le> 70))"

definition unhex :: "char \<Rightarrow> nat" where
  "unhex c =
     (let n = (of_char c :: nat) in
      if 48 \<le> n \<and> n \<le> 57 then n - 48
      else if 97 \<le> n \<and> n \<le> 102 then n - 97 + 10
      else if 65 \<le> n \<and> n \<le> 70 then n - 65 + 10
      else 0)"

datatype url_error = EscapeError string

text \<open>
  \<open>unescape(s, encodePathSegment)\<close>: a \<open>%\<close> must be followed by two hexadecimal
  digits, otherwise the call fails with \<open>EscapeError\<close> of the (at most three) bytes
  at that place; \<open>%XY\<close> becomes the byte \<open>unhex(X)<<4 | unhex(Y)\<close>; every other
  byte, \<open>+\<close> included, is copied.
\<close>

fun unescape :: "string \<Rightarrow> url_error + string" where
  "unescape [] = Inr []"
| "unescape (c # cs) =
     (if c = CHR ''%'' then
        (case cs of
           a # b # rest \<Rightarrow>
             if ishex a \<and> ishex b
             then (case unescape rest of
                     Inl e \<Rightarrow> Inl e
                   | Inr t \<Rightarrow> Inr (char_of (16 * unhex a + unhex b) # t))
             else Inl (EscapeError (take 3 (c # cs)))
         | _ \<Rightarrow> Inl (EscapeError (take 3 (c # cs))))
      else (case unescape cs of Inl e \<Rightarrow> Inl e | Inr t \<Rightarrow> Inr (c # t)))"

definition PathUnescape :: "string \<Rightarrow> url_error + string" where
  "PathUnescape s = unescape s"

text \<open>The last segment of a path: the text after its last \<open>/\<close>.\<close>

definition last_segment :: "string \<Rightarrow> string" where
  "last_segment u = rev (takeWhile (\<lambda>c. c \<noteq> CHR ''/'') (rev u))"

section \<open>The data model of the two services\<close>

text \<open>
  JSON values, as the payloads the services hand to the transport client are
  serialised and as its responses are decoded. \<open>JInt\<close> is a number literal written as
  an integer, \<open>JFloat\<close> any other number literal (no struct of the two services has a
  floating-point field, so only its presence matters).
\<close>

datatype json =
    JNull
  | JBool bool
  | JInt int
  | JFloat
  | JString string
  | JArray "json list"
  | JObject "(string \<times> json) list"

text \<open>
  Modelled from the spec: \<open>VariableTypeValue\<close> is declared in another file of the
  package; the spec calls it a type tag of a small closed enumeration. It is a string
  on the wire.
\<close>

type_synonym VariableTypeValue = string

record InstanceVariable =
  Key :: string
  Value :: string
  VariableType :: VariableTypeValue
  Protected :: bool
  Masked :: bool
  Raw :: bool
  Description :: string

text \<open>\<open>new(InstanceVariable)\<close>: Go's zero value of the struct.\<close>

definition new_InstanceVariable :: InstanceVariable where
  "new_InstanceVariable =
     \<lparr>Key = [], Value = [], VariableType = [], Protected = False, Masked = False,
      Raw = False, Description = []\<rparr>"

text \<open>
  Modelled from the spec: \<open>ListOptions\<close>, of which \<open>ListInstanceVariablesOptions\<close> is
  a renaming, is declared in another file of the package; the spec gives it a page
  number and a page size.
\<close>

record ListInstanceVariablesOptions =
  Page :: int
  PerPage :: int

text \<open>
  The option structs. Every field is a pointer in the source (\<open>None\<close> is \<open>nil\<close>); the
  fields carry the struct's name as a prefix because \<open>InstanceVariable\<close> already owns
  the plain names.
\<close>

record CreateInstanceVariableOptions =
  create_Key :: "string option"
  create_Value :: "string option"
  create_Description :: "string option"
  create_Masked :: "bool option"
  create_Protected :: "bool option"
  create_Raw :: "bool option"
  create_VariableType :: "VariableTypeValue option"

record UpdateInstanceVariableOptions =
  update_Value :: "string option"
  update_Description :: "string option"
  update_Masked :: "bool option"
  update_Protected :: "bool option"
  update_Raw :: "bool option"
  update_VariableType :: "VariableTypeValue option"

text \<open>
  The field tags of the option structs. Both the \<open>url\<close> and the \<open>json\<close> tag of a field
  give the same name with \<open>omitempty\<close>: a \<open>nil\<close> pointer is left out, any other
  pointer contributes its name and the value it points to, in the order of the
  declaration.
\<close>

definition tagged :: "string \<Rightarrow> ('a \<Rightarrow> json) \<Rightarrow> 'a option \<Rightarrow> (string \<times> json) list" where
  "tagged name enc p = (case p of None \<Rightarrow> [] | Some x \<Rightarrow> [(name, enc x)])"

definition CreateInstanceVariableOptions_fields ::
    "CreateInstanceVariableOptions \<Rightarrow> (string \<times> json) list" where
  "CreateInstanceVariableOptions_fields opt =
     tagged ''key'' JString (create_Key opt) @
     tagged ''value'' JString (create_Value opt) @
     tagged ''description'' JString (create_Description opt) @
     tagged ''masked'' JBool (create_Masked opt) @
     tagged ''protected'' JBool (create_Protected opt) @
     tagged ''raw'' JBool (create_Raw opt) @
     tagged ''variable_type'' JString (create_VariableType opt)"

definition UpdateInstanceVariableOptions_fields ::
    "UpdateInstanceVariableOptions \<Rightarrow> (string \<times> json) list" where
  "UpdateInstanceVariableOptions_fields opt =
     tagged ''value'' JString (update_Value opt) @
     tagged ''description'' JString (update_Description opt) @
     tagged ''masked'' JBool (update_Masked opt) @
     tagged ''protected'' JBool (update_Protected opt) @
     tagged ''raw'' JBool (update_Raw opt) @
     tagged ''variable_type'' JString (update_VariableType opt)"

text \<open>
  The fields a payload of \<open>UpdateVariable\<close> is serialised to: none for a \<open>nil\<close>
  pointer, the tagged fields of the struct otherwise.
\<close>

definition update_payload :: "UpdateInstanceVariableOptions option \<Rightarrow> (string \<times> json) list" where
  "update_payload opt =
     (case opt of None \<Rightarrow> [] | Some x \<Rightarrow> UpdateInstanceVariableOptions_fields x)"

definition create_payload :: "CreateInstanceVariableOptions option \<Rightarrow> (string \<times> json) list" where
  "create_payload opt =
     (case opt of None \<Rightarrow> [] | Some x \<Rightarrow> CreateInstanceVariableOptions_fields x)"

text \<open>
  The Sidekiq snapshots. The anonymous structs of the source get a name
  (\<open>QueueEntry\<close>, \<open>Process\<close>, \<open>Jobs\<close>). A map, a slice and a pointer can be \<open>nil\<close>
  (\<open>None\<close>). \<open>time.Time\<close> belongs to Go's standard library: a time is kept as the
  text it was given in.
\<close>

record QueueEntry =
  Backlog :: int
  Latency :: int

record QueueMetrics =
  Queues :: "(string \<rightharpoonup> QueueEntry) option"

type_synonym Time = string

record Process =
  Hostname :: string
  Pid :: int
  Tag :: string
  StartedAt :: "Time option"
  process_Queues :: "string list option"
  Labels :: "string list option"
  Concurrency :: int
  Busy :: int

record ProcessMetrics =
  Processes :: "Process list option"

record Jobs =
  Processed :: int
  Failed :: int
  Enqueued :: int

record JobStats =
  Jobs :: Jobs

text \<open>\<open>CompoundMetrics\<close> embeds the three snapshot structs, and declares no field.\<close>

record CompoundMetrics =
  QueueMetrics :: QueueMetrics
  ProcessMetrics :: ProcessMetrics
  JobStats :: JobStats

definition new_QueueMetrics :: QueueMetrics where
  "new_QueueMetrics = \<lparr>Queues = None\<rparr>"

definition new_ProcessMetrics :: ProcessMetrics where
  "new_ProcessMetrics = \<lparr>Processes = None\<rparr>"

definition new_JobStats :: JobStats where
  "new_JobStats = \<lparr>Jobs = \<lparr>Processed = 0, Failed = 0, Enqueued = 0\<rparr>\<rparr>"

definition new_CompoundMetrics :: CompoundMetrics where
  "new_CompoundMetrics =
     \<lparr>QueueMetrics = new_QueueMetrics, ProcessMetrics = new_ProcessMetrics,
      JobStats = new_JobStats\<rparr>"

section \<open>The transport client\<close>

text \<open>
  Modelled from the spec: the error values come from the transport client, which is
  declared in another file of the package. The constructors follow the spec's error
  taxonomy: \<open>TransportError\<close> (with the status code when there is one),
  \<open>DecodeError\<close>, and \<open>NotFound\<close>, \<open>Conflict\<close>, \<open>ValidationError\<close> as refinements
  keyed off the status code; \<open>RequestError\<close> is a failure to construct the request.
\<close>

datatype error =
    TransportError "int option"
  | DecodeError
  | NotFound
  | Conflict
  | ValidationError
  | RequestError string

text \<open>
  Modelled from the spec: \<open>Response\<close> is declared in another file of the package; it
  is the metadata of a response, of which the spec names the status code.
\<close>

record Response =
  StatusCode :: int

text \<open>\<open>http.MethodGet\<close>, \<open>http.MethodPost\<close>, \<open>http.MethodPut\<close>, \<open>http.MethodDelete\<close>.\<close>

definition MethodGet :: string where
  "MethodGet = ''GET''"

definition MethodPost :: string where
  "MethodPost = ''POST''"

definition MethodPut :: string where
  "MethodPut = ''PUT''"

definition MethodDelete :: string where
  "MethodDelete = ''DELETE''"

text \<open>
  The third argument of \<open>NewRequest\<close> (\<open>opt any\<close>): the untyped \<open>nil\<close>, or a pointer to
  one of the option structs, which can itself be \<open>nil\<close>.
\<close>

datatype request_opt =
    NoOpt
  | ListOpt "ListInstanceVariablesOptions option"
  | CreateOpt "CreateInstanceVariableOptions option"
  | UpdateOpt "UpdateInstanceVariableOptions option"

text \<open>
  The second argument of \<open>Do\<close> (\<open>v any\<close>): \<open>nil\<close>, or a pointer to the value the
  response is decoded into; \<open>decoded\<close> is the value behind that pointer.
\<close>

datatype decoded =
    DNil
  | DVariables "InstanceVariable option list option"
  | DVariable InstanceVariable
  | DQueueMetrics QueueMetrics
  | DProcessMetrics ProcessMetrics
  | DJobStats JobStats
  | DCompoundMetrics CompoundMetrics

text \<open>
  Reading the value back through the pointer. \<open>Do\<close> writes through the pointer it was
  given, so the value has the type of the target; the second equation of each function
  is for values of another type, which a pointer of the source never holds.
\<close>

fun the_Variables :: "decoded \<Rightarrow> InstanceVariable option list option" where
  "the_Variables (DVariables vs) = vs"
| "the_Variables _ = None"

fun the_Variable :: "decoded \<Rightarrow> InstanceVariable" where
  "the_Variable (DVariable v) = v"
| "the_Variable _ = new_InstanceVariable"

fun the_QueueMetrics :: "decoded \<Rightarrow> QueueMetrics" where
  "the_QueueMetrics (DQueueMetrics q) = q"
| "the_QueueMetrics _ = new_QueueMetrics"

fun the_ProcessMetrics :: "decoded \<Rightarrow> ProcessMetrics" where
  "the_ProcessMetrics (DProcessMetrics p) = p"
| "the_ProcessMetrics _ = new_ProcessMetrics"

fun the_JobStats :: "decoded \<Rightarrow> JobStats" where
  "the_JobStats (DJobStats j) = j"
| "the_JobStats _ = new_JobStats"

fun the_CompoundMetrics :: "decoded \<Rightarrow> CompoundMetrics" where
  "the_CompoundMetrics (DCompoundMetrics c) = c"
| "the_CompoundMetrics _ = new_CompoundMetrics"

text \<open>
  Modelled from the spec: \<open>Client\<close> and its methods \<open>NewRequest\<close> and \<open>Do\<close> are
  declared in another file of the package. The spec's transport client accepts a
  method, a path, an optional body and per-call option functions, and returns a
  decoded response, its metadata and an error. What the two methods compute is not
  fixed here: a client is any pair of behaviours. \<open>'o\<close> is the type of a request
  modifier (\<open>RequestOptionFunc\<close>), \<open>'rq\<close> the type of a constructed request, \<open>'w\<close> the
  state of what lies behind the client (the network and the server). \<open>Do_of\<close> returns
  the value behind \<open>v\<close> after the call, the response metadata (\<open>None\<close> is \<open>nil\<close>) and
  the error (\<open>None\<close> is \<open>nil\<close>).
\<close>

record ('o, 'rq, 'w) Client =
  NewRequest_of :: "string \<Rightarrow> string \<Rightarrow> request_opt \<Rightarrow> 'o list \<Rightarrow> error + 'rq"
  Do_of :: "'rq \<Rightarrow> decoded \<Rightarrow> 'w \<Rightarrow> (decoded \<times> Response option \<times> error option) \<times> 'w"

record ('o, 'rq, 'w) InstanceVariablesService =
  client :: "('o, 'rq, 'w) Client"

record ('o, 'rq, 'w) SidekiqService =
  client :: "('o, 'rq, 'w) Client"

text \<open>
  A call a method makes to the transport client: its arguments and what it returned.
\<close>

datatype ('o, 'rq) call =
    NewRequestCall string string request_opt "'o list" "error + 'rq"
  | DoCall 'rq decoded "decoded \<times> Response option \<times> error option"

text \<open>
  The world a method runs in: the service object it is called on (its receiver, a
  pointer in the source, so that a method could assign to its fields), the calls
  made to the transport client so far, and the state behind the client.
\<close>

record ('s, 'o, 'rq, 'w) world =
  receiver :: 's
  calls :: "('o, 'rq) call list"
  remote :: 'w

text \<open>\<open>c.NewRequest(method, path, opt, options)\<close> and \<open>c.Do(req, v)\<close>, each recorded.\<close>

definition NewRequest ::
    "('o, 'rq, 'w) Client \<Rightarrow> string \<Rightarrow> string \<Rightarrow> request_opt \<Rightarrow> 'o list \<Rightarrow>
     ('s, 'o, 'rq, 'w) world \<Rightarrow> (error + 'rq) \<times> ('s, 'o, 'rq, 'w) world" where
  "NewRequest c method path opt options st =
     (let r = NewRequest_of c method path opt options
      in (r, st\<lparr>calls := calls st @ [NewRequestCall method path opt options r]\<rparr>))"

definition Do ::
    "('o, 'rq, 'w) Client \<Rightarrow> 'rq \<Rightarrow> decoded \<Rightarrow> ('s, 'o, 'rq, 'w) world \<Rightarrow>
     (decoded \<times> Response option \<times> error option) \<times> ('s, 'o, 'rq, 'w) world" where
  "Do c req v st =
     (case Do_of c req v (remote st) of
        (out, r) \<Rightarrow> (out, st\<lparr>calls := calls st @ [DoCall req v out], remote := r\<rparr>))"

text \<open>
  Reading a record of calls: the calls made between two states, the requests
  constructed (method, path, payload, modifiers), the requests executed (request,
  target), and the error and the response metadata a call returned.
\<close>

definition made :: "('s, 'o, 'rq, 'w) world \<Rightarrow> ('s, 'o, 'rq, 'w) world \<Rightarrow> ('o, 'rq) call list" where
  "made st st' = drop (length (calls st)) (calls st')"

fun request_of_call ::
    "('o, 'rq) call \<Rightarrow> (string \<times> string \<times> request_opt \<times> 'o list) option" where
  "request_of_call (NewRequestCall method path opt options r) = Some (method, path, opt, options)"
| "request_of_call (DoCall req v out) = None"

fun execution_of_call :: "('o, 'rq) call \<Rightarrow> ('rq \<times> decoded) option" where
  "execution_of_call (NewRequestCall method path opt options r) = None"
| "execution_of_call (DoCall req v out) = Some (req, v)"

definition requests ::
    "('o, 'rq) call list \<Rightarrow> (string \<times> string \<times> request_opt \<times> 'o list) list" where
  "requests cs = List.map_filter request_of_call cs"

definition executions :: "('o, 'rq) call list \<Rightarrow> ('rq \<times> decoded) list" where
  "executions cs = List.map_filter execution_of_call cs"

fun call_error :: "('o, 'rq) call \<Rightarrow> error option" where
  "call_error (NewRequestCall method path opt options (Inl e)) = Some e"
| "call_error (NewRequestCall method path opt options (Inr req)) = None"
| "call_error (DoCall req v (v', resp, err)) = err"

fun call_response :: "('o, 'rq) call \<Rightarrow> Response option" where
  "call_response (NewRequestCall method path opt options r) = None"
| "call_response (DoCall req v (v', resp, err)) = resp"

text \<open>The three values a method returns, read off its outcome.\<close>

definition result_of :: "('a \<times> Response option \<times> error option) \<times> 'st \<Rightarrow> 'a" where
  "result_of out = fst (fst out)"


definition error_of :: "('a \<times> Response option \<times> error option) \<times> 'st \<Rightarrow> error option" where
  "error_of out = snd (snd (fst out))"

definition requested_paths :: "('o, 'rq) call list \<Rightarrow> string list" where
  "requested_paths cs = map (\<lambda>(method, path, opt, options). path) (requests cs)"

text \<open>
  One round trip through the client: the request is constructed and, if that
  succeeded, executed once with target \<open>v\<close>, in state \<open>w\<close> of the remote side.
\<close>

definition round_trip ::
    "('o, 'rq, 'w) Client \<Rightarrow> string \<Rightarrow> string \<Rightarrow> request_opt \<Rightarrow> 'o list \<Rightarrow> decoded \<Rightarrow> 'w \<Rightarrow>
     ('o, 'rq) call list" where
  "round_trip c method path opt options v w =
     (case NewRequest_of c method path opt options of
        Inl e \<Rightarrow> [NewRequestCall method path opt options (Inl e)]
      | Inr req \<Rightarrow>
          [NewRequestCall method path opt options (Inr req),
           DoCall req v (fst (Do_of c req v w))])"

text \<open>
  What a method that decodes a result returns after one round trip, given what the
  construction of the request returned (\<open>nr\<close>), what its execution returns (\<open>d\<close>)
  and how the result is read back (\<open>rd\<close>). The methods below do not use it; it is
  the common shape their return values are proved to have.
\<close>

definition answer ::
    "(decoded \<Rightarrow> 'a option) \<Rightarrow> error + 'rq \<Rightarrow>
     ('rq \<Rightarrow> decoded \<times> Response option \<times> error option) \<Rightarrow>
     'a option \<times> Response option \<times> error option" where
  "answer rd nr d =
     (case nr of
        Inl e \<Rightarrow> (None, None, Some e)
      | Inr req \<Rightarrow>
          (case d req of
             (v, resp, Some e) \<Rightarrow> (None, resp, Some e)
           | (v, resp, None) \<Rightarrow> (rd v, resp, None)))"

section \<open>The instance-variable service (\<open>instance_variables.go\<close>)\<close>

type_synonym ('o, 'rq, 'w) iv_world =
  "(('o, 'rq, 'w) InstanceVariablesService, 'o, 'rq, 'w) world"

definition ListVariables ::
    "ListInstanceVariablesOptions option \<Rightarrow> 'o list \<Rightarrow> ('o, 'rq, 'w) iv_world \<Rightarrow>
     (InstanceVariable option list option \<times> Response option \<times> error option) \<times>
     ('o, 'rq, 'w) iv_world" where
  "ListVariables opt options st =
     (let u = ''admin/ci/variables'' in
      case NewRequest (InstanceVariablesService.client (receiver st)) MethodGet u (ListOpt opt)
             options st of
        (Inl err, st1) \<Rightarrow> ((None, None, Some err), st1)
      | (Inr req, st1) \<Rightarrow>
          (case Do (InstanceVariablesService.client (receiver st1)) req (DVariables None) st1 of
             ((vs, resp, Some err), st2) \<Rightarrow> ((None, resp, Some err), st2)
           | ((vs, resp, None), st2) \<Rightarrow> ((the_Variables vs, resp, None), st2)))"

definition GetVariable ::
    "string \<Rightarrow> 'o list \<Rightarrow> ('o, 'rq, 'w) iv_world \<Rightarrow>
     (InstanceVariable option \<times> Response option \<times> error option) \<times> ('o, 'rq, 'w) iv_world" where
  "GetVariable key options st =
     (let u = ''admin/ci/variables/'' @ PathEscape key in
      case NewRequest (InstanceVariablesService.client (receiver st)) MethodGet u NoOpt
             options st of
        (Inl err, st1) \<Rightarrow> ((None, None, Some err), st1)
      | (Inr req, st1) \<Rightarrow>
          (case Do (InstanceVariablesService.client (receiver st1)) req
                  (DVariable new_InstanceVariable) st1 of
             ((v, resp, Some err), st2) \<Rightarrow> ((None, resp, Some err), st2)
           | ((v, resp, None), st2) \<Rightarrow> ((Some (the_Variable v), resp, None), st2)))"

definition CreateVariable ::
    "CreateInstanceVariableOptions option \<Rightarrow> 'o list \<Rightarrow> ('o, 'rq, 'w) iv_world \<Rightarrow>
     (InstanceVariable option \<times> Response option \<times> error option) \<times> ('o, 'rq, 'w) iv_world" where
  "CreateVariable opt options st =
     (let u = ''admin/ci/variables'' in
      case NewRequest (InstanceVariablesService.client (receiver st)) MethodPost u (CreateOpt opt)
             options st of
        (Inl err, st1) \<Rightarrow> ((None, None, Some err), st1)
      | (Inr req, st1) \<Rightarrow>
          (case Do (InstanceVariablesService.client (receiver st1)) req
                  (DVariable new_InstanceVariable) st1 of
             ((v, resp, Some err), st2) \<Rightarrow> ((None, resp, Some err), st2)
           | ((v, resp, None), st2) \<Rightarrow> ((Some (the_Variable v), resp, None), st2)))"

definition UpdateVariable ::
    "string \<Rightarrow> UpdateInstanceVariableOptions option \<Rightarrow> 'o list \<Rightarrow> ('o, 'rq, 'w) iv_world \<Rightarrow>
     (InstanceVariable option \<times> Response option \<times> error option) \<times> ('o, 'rq, 'w) iv_world" where
  "UpdateVariable key opt options st =
     (let u = ''admin/ci/variables/'' @ PathEscape key in
      case NewRequest (InstanceVariablesService.client (receiver st)) MethodPut u (UpdateOpt opt)
             options st of
        (Inl err, st1) \<Rightarrow> ((None, None, Some err), st1)
      | (Inr req, st1) \<Rightarrow>
          (case Do (InstanceVariablesService.client (receiver st1)) req
                  (DVariable new_InstanceVariable) st1 of
             ((v, resp, Some err), st2) \<Rightarrow> ((None, resp, Some err), st2)
           | ((v, resp, None), st2) \<Rightarrow> ((Some (the_Variable v), resp, None), st2)))"

definition RemoveVariable ::
    "string \<Rightarrow> 'o list \<Rightarrow> ('o, 'rq, 'w) iv_world \<Rightarrow>
     (Response option \<times> error option) \<times> ('o, 'rq, 'w) iv_world" where
  "RemoveVariable key options st =
     (let u = ''admin/ci/variables/'' @ PathEscape key in
      case NewRequest (InstanceVariablesService.client (receiver st)) MethodDelete u NoOpt
             options st of
        (Inl err, st1) \<Rightarrow> ((None, Some err), st1)
      | (Inr req, st1) \<Rightarrow>
          (case Do (InstanceVariablesService.client (receiver st1)) req DNil st1 of
             ((v, resp, err), st2) \<Rightarrow> ((resp, err), st2)))"

section \<open>The Sidekiq metrics service (\<open>sidekiq_metrics.go\<close>)\<close>

type_synonym ('o, 'rq, 'w) sk_world =
  "(('o, 'rq, 'w) SidekiqService, 'o, 'rq, 'w) world"

definition GetQueueMetrics ::
    "'o list \<Rightarrow> ('o, 'rq, 'w) sk_world \<Rightarrow>
     (QueueMetrics option \<times> Response option \<times> error option) \<times> ('o, 'rq, 'w) sk_world" where
  "GetQueueMetrics options st =
     (case NewRequest (SidekiqService.client (receiver st)) MethodGet ''/sidekiq/queue_metrics''
             NoOpt options st of
        (Inl err, st1) \<Rightarrow> ((None, None, Some err), st1)
      | (Inr req, st1) \<Rightarrow>
          (case Do (SidekiqService.client (receiver st1)) req (DQueueMetrics new_QueueMetrics)
                  st1 of
             ((q, resp, Some err), st2) \<Rightarrow> ((None, resp, Some err), st2)
           | ((q, resp, None), st2) \<Rightarrow> ((Some (the_QueueMetrics q), resp, None), st2)))"

definition GetProcessMetrics ::
    "'o list \<Rightarrow> ('o, 'rq, 'w) sk_world \<Rightarrow>
     (ProcessMetrics option \<times> Response option \<times> error option) \<times> ('o, 'rq, 'w) sk_world" where
  "GetProcessMetrics options st =
     (case NewRequest (SidekiqService.client (receiver st)) MethodGet
             ''/sidekiq/process_metrics'' NoOpt options st of
        (Inl err, st1) \<Rightarrow> ((None, None, Some err), st1)
      | (Inr req, st1) \<Rightarrow>
          (case Do (SidekiqService.client (receiver st1)) req
                  (DProcessMetrics new_ProcessMetrics) st1 of
             ((p, resp, Some err), st2) \<Rightarrow> ((None, resp, Some err), st2)
           | ((p, resp, None), st2) \<Rightarrow> ((Some (the_ProcessMetrics p), resp, None), st2)))"

definition GetJobStats ::
    "'o list \<Rightarrow> ('o, 'rq, 'w) sk_world \<Rightarrow>
     (JobStats option \<times> Response option \<times> error option) \<times> ('o, 'rq, 'w) sk_world" where
  "GetJobStats options st =
     (case NewRequest (SidekiqService.client (receiver st)) MethodGet ''/sidekiq/job_stats''
             NoOpt options st of
        (Inl err, st1) \<Rightarrow> ((None, None, Some err), st1)
      | (Inr req, st1) \<Rightarrow>
          (case Do (SidekiqService.client (receiver st1)) req (DJobStats new_JobStats) st1 of
             ((j, resp, Some err), st2) \<Rightarrow> ((None, resp, Some err), st2)
           | ((j, resp, None), st2) \<Rightarrow> ((Some (the_JobStats j), resp, None), st2)))"

definition GetCompoundMetrics ::
    "'o list \<Rightarrow> ('o, 'rq, 'w) sk_world \<Rightarrow>
     (CompoundMetrics option \<times> Response option \<times> error option) \<times> ('o, 'rq, 'w) sk_world" where
  "GetCompoundMetrics options st =
     (case NewRequest (SidekiqService.client (receiver st)) MethodGet
             ''/sidekiq/compound_metrics'' NoOpt options st of
        (Inl err, st1) \<Rightarrow> ((None, None, Some err), st1)
      | (Inr req, st1) \<Rightarrow>
          (case Do (SidekiqService.client (receiver st1)) req
                  (DCompoundMetrics new_CompoundMetrics) st1 of
             ((c, resp, Some err), st2) \<Rightarrow> ((None, resp, Some err), st2)
           | ((c, resp, None), st2) \<Rightarrow> ((Some (the_CompoundMetrics c), resp, None), st2)))"

section \<open>Test doubles\<close>

text \<open>
  Concrete clients and states, on which the theorems below are instantiated. A
  request modifier is a number, a constructed request the pair of its method and
  path, and the remote side has no state. \<open>refusing_client\<close> fails to construct any
  request; \<open>failing_client\<close> constructs every request and fails to execute it, with
  the metadata of a response of status 500.
\<close>

definition refusing_client :: "(nat, string \<times> string, unit) Client" where
  "refusing_client =
     \<lparr>NewRequest_of = (\<lambda>method path opt options. Inl (RequestError ''invalid modifier'')),
      Do_of = (\<lambda>req v w. ((v, None, None), w))\<rparr>"

definition failing_client :: "(nat, string \<times> string, unit) Client" where
  "failing_client =
     \<lparr>NewRequest_of = (\<lambda>method path opt options. Inr (method, path)),
      Do_of = (\<lambda>req v w. ((v, Some \<lparr>StatusCode = 500\<rparr>, Some (TransportError (Some 500))), w))\<rparr>"

definition iv_start ::
    "(nat, string \<times> string, unit) Client \<Rightarrow> (nat, string \<times> string, unit) iv_world" where
  "iv_start c = \<lparr>receiver = \<lparr>InstanceVariablesService.client = c\<rparr>, calls = [], remote = ()\<rparr>"

definition sk_start ::
    "(nat, string \<times> string, unit) Client \<Rightarrow> (nat, string \<times> string, unit) sk_world" where
  "sk_start c = \<lparr>receiver = \<lparr>SidekiqService.client = c\<rparr>, calls = [], remote = ()\<rparr>"

section \<open>Path escaping: round trip\<close>

lemma upperhex_nth:
  "k < 16 \<Longrightarrow> ishex (upperhex ! k) \<and> unhex (upperhex ! k) = k \<and> upperhex ! k \<noteq> CHR ''/''"
proof -
  assume "k < 16"
  then have "k = 0 \<or> k = 1 \<or> k = 2 \<or> k = 3 \<or> k = 4 \<or> k = 5 \<or> k = 6 \<or> k = 7 \<or> k = 8
      \<or> k = 9 \<or> k = 10 \<or> k = 11 \<or> k = 12 \<or> k = 13 \<or> k = 14 \<or> k = 15"
    by arith
  then show ?thesis
    by (auto simp: upperhex_def ishex_def unhex_def)
qed

lemma percent_escaped: "shouldEscape (CHR ''%'')"
  by (simp add: shouldEscape_def)

lemma slash_escaped: "shouldEscape (CHR ''/'')"
  by (simp add: shouldEscape_def)

lemma of_char_less_256: "(of_char c :: nat) < 256"
proof -
  have "(of_char c :: nat) mod 256 < 256" by (rule mod_less_divisor) simp
  then show ?thesis by simp
qed

lemma byte_nibbles: "char_of (16 * ((of_char c :: nat) div 16) + (of_char c :: nat) mod 16) = c"
  by simp

lemma unescape_escape: "unescape (escape s) = Inr s"
proof (induction s)
  case Nil
  show ?case by simp
next
  case (Cons c cs)
  show ?case
  proof (cases "shouldEscape c")
    case True
    have hi: "(of_char c :: nat) div 16 < 16"
      using of_char_less_256 [of c] by (simp add: less_mult_imp_div_less)
    have lo: "(of_char c :: nat) mod 16 < 16" by simp
    from True Cons.IH upperhex_nth [OF hi] upperhex_nth [OF lo] show ?thesis
      by (simp add: byte_nibbles)
  next
    case False
    then have "c \<noteq> CHR ''%''" using percent_escaped by auto
    with False Cons.IH show ?thesis by simp
  qed
qed

lemma escape_no_slash: "CHR ''/'' \<notin> set (escape s)"
proof (induction s)
  case Nil
  show ?case by simp
next
  case (Cons c cs)
  have hi: "(of_char c :: nat) div 16 < 16"
    using of_char_less_256 [of c] by (simp add: less_mult_imp_div_less)
  have lo: "(of_char c :: nat) mod 16 < 16" by simp
  show ?case
  proof (cases "shouldEscape c")
    case True
    with Cons.IH upperhex_nth [OF hi] upperhex_nth [OF lo] show ?thesis by auto
  next
    case False
    then have "c \<noteq> CHR ''/''" using slash_escaped by auto
    with False Cons.IH show ?thesis by auto
  qed
qed

lemma last_segment_append:
  "CHR ''/'' \<notin> set e \<Longrightarrow> last_segment (p @ CHR ''/'' # e) = e"
proof -
  assume a: "CHR ''/'' \<notin> set e"
  have "takeWhile (\<lambda>c. c \<noteq> CHR ''/'') (rev e @ CHR ''/'' # rev p) = rev e"
    using a by (subst takeWhile_append2) auto
  then show ?thesis by (simp add: last_segment_def)
qed

section \<open>The calls each method makes\<close>

lemma requests_round_trip:
  "requests (round_trip c method path opt options v w) = [(method, path, opt, options)]"
  by (simp add: requests_def round_trip_def List.map_filter_simps split: sum.splits)

lemma executions_round_trip:
  "executions (round_trip c method path opt options v w) =
     (case NewRequest_of c method path opt options of Inl e \<Rightarrow> [] | Inr req \<Rightarrow> [(req, v)])"
  by (simp add: executions_def round_trip_def List.map_filter_simps split: sum.splits)

lemma ListVariables_made:
  "made st (snd (ListVariables opt options st)) =
     round_trip (InstanceVariablesService.client (receiver st)) MethodGet ''admin/ci/variables''
       (ListOpt opt) options (DVariables None) (remote st)"
  by (simp add: ListVariables_def NewRequest_def Do_def made_def round_trip_def Let_def
      split: sum.splits prod.splits option.splits)

lemma GetVariable_made:
  "made st (snd (GetVariable key options st)) =
     round_trip (InstanceVariablesService.client (receiver st)) MethodGet
       (''admin/ci/variables/'' @ PathEscape key) NoOpt options (DVariable new_InstanceVariable)
       (remote st)"
  by (simp add: GetVariable_def NewRequest_def Do_def made_def round_trip_def Let_def
      split: sum.splits prod.splits option.splits)

lemma CreateVariable_made:
  "made st (snd (CreateVariable opt options st)) =
     round_trip (InstanceVariablesService.client (receiver st)) MethodPost ''admin/ci/variables''
       (CreateOpt opt) options (DVariable new_InstanceVariable) (remote st)"
  by (simp add: CreateVariable_def NewRequest_def Do_def made_def round_trip_def Let_def
      split: sum.splits prod.splits option.splits)

lemma UpdateVariable_made:
  "made st (snd (UpdateVariable key opt options st)) =
     round_trip (InstanceVariablesService.client (receiver st)) MethodPut
       (''admin/ci/variables/'' @ PathEscape key) (UpdateOpt opt) options
       (DVariable new_InstanceVariable) (remote st)"
  by (simp add: UpdateVariable_def NewRequest_def Do_def made_def round_trip_def Let_def
      split: sum.splits prod.splits option.splits)

lemma RemoveVariable_made:
  "made st (snd (RemoveVariable key options st)) =
     round_trip (InstanceVariablesService.client (receiver st)) MethodDelete
       (''admin/ci/variables/'' @ PathEscape key) NoOpt options DNil (remote st)"
  by (simp add: RemoveVariable_def NewRequest_def Do_def made_def round_trip_def Let_def
      split: sum.splits prod.splits option.splits)

lemma GetQueueMetrics_made:
  "made st (snd (GetQueueMetrics options st)) =
     round_trip (SidekiqService.client (receiver st)) MethodGet ''/sidekiq/queue_metrics''
       NoOpt options (DQueueMetrics new_QueueMetrics) (remote st)"
  by (simp add: GetQueueMetrics_def NewRequest_def Do_def made_def round_trip_def Let_def
      split: sum.splits prod.splits option.splits)

lemma GetProcessMetrics_made:
  "made st (snd (GetProcessMetrics options st)) =
     round_trip (SidekiqService.client (receiver st)) MethodGet ''/sidekiq/process_metrics''
       NoOpt options (DProcessMetrics new_ProcessMetrics) (remote st)"
  by (simp add: GetProcessMetrics_def NewRequest_def Do_def made_def round_trip_def Let_def
      split: sum.splits prod.splits option.splits)

lemma GetJobStats_made:
  "made st (snd (GetJobStats options st)) =
     round_trip (SidekiqService.client (receiver st)) MethodGet ''/sidekiq/job_stats''
       NoOpt options (DJobStats new_JobStats) (remote st)"
  by (simp add: GetJobStats_def NewRequest_def Do_def made_def round_trip_def Let_def
      split: sum.splits prod.splits option.splits)

lemma GetCompoundMetrics_made:
  "made st (snd (GetCompoundMetrics options st)) =
     round_trip (SidekiqService.client (receiver st)) MethodGet ''/sidekiq/compound_metrics''
       NoOpt options (DCompoundMetrics new_CompoundMetrics) (remote st)"
  by (simp add: GetCompoundMetrics_def NewRequest_def Do_def made_def round_trip_def Let_def
      split: sum.splits prod.splits option.splits)

lemma requested_paths_round_trip:
  "requested_paths (round_trip c method path opt options v w) = [path]"
  by (simp add: requested_paths_def requests_round_trip)

lemma PathEscape_example: "PathEscape ''a/b%c d+e'' = ''a%2Fb%25c%20d+e''"
  by (simp add: PathEscape_def shouldEscape_def upperhex_def)

lemma PathUnescape_example: "PathUnescape ''a%2Fb%25c%20d+e'' = Inr ''a/b%c d+e''"
  by code_simp

lemma PathUnescape_malformed: "PathUnescape ''100%'' = Inl (EscapeError ''%'')"
  by (simp add: PathUnescape_def)

section \<open>The wire contract of the instance-variable service\<close>

text \<open>
  C1. Each of the five instance-variable methods constructs exactly one request, with
  the method and the resource path of the wire contract: \<open>ListVariables\<close> a GET of
  \<open>admin/ci/variables\<close> carrying the pagination options, \<open>GetVariable\<close> a GET and
  \<open>RemoveVariable\<close> a DELETE of \<open>admin/ci/variables/{key}\<close> (the key escaped as a path
  segment) carrying nothing, \<open>CreateVariable\<close> a POST of \<open>admin/ci/variables\<close> and
  \<open>UpdateVariable\<close> a PUT of \<open>admin/ci/variables/{key}\<close> carrying their option
  struct; the caller's request modifiers go with each. Where the transport client
  puts what the request carries (the query string of a GET, the body of a POST or a
  PUT) is its own business.
\<close>

theorem instance_variables_wire_contract:
  fixes st :: "('o, 'rq, 'w) iv_world"
  shows "requests (made st (snd (ListVariables lopt options st))) =
           [(''GET'', ''admin/ci/variables'', ListOpt lopt, options)]
       \<and> requests (made st (snd (GetVariable key options st))) =
           [(''GET'', ''admin/ci/variables/'' @ PathEscape key, NoOpt, options)]
       \<and> requests (made st (snd (CreateVariable copt options st))) =
           [(''POST'', ''admin/ci/variables'', CreateOpt copt, options)]
       \<and> requests (made st (snd (UpdateVariable key uopt options st))) =
           [(''PUT'', ''admin/ci/variables/'' @ PathEscape key, UpdateOpt uopt, options)]
       \<and> requests (made st (snd (RemoveVariable key options st))) =
           [(''DELETE'', ''admin/ci/variables/'' @ PathEscape key, NoOpt, options)]"
  by (simp add: ListVariables_made GetVariable_made CreateVariable_made UpdateVariable_made
      RemoveVariable_made requests_round_trip MethodGet_def MethodPost_def MethodPut_def
      MethodDelete_def)

text \<open>
  C2. For every key, the path that \<open>GetVariable\<close>, \<open>UpdateVariable\<close> and
  \<open>RemoveVariable\<close> request is \<open>admin/ci/variables/\<close> followed by the escaped key; the
  escaped key holds no \<open>/\<close>, so it is the last segment of the path, and unescaping
  that segment gives the key back, byte for byte.
\<close>

theorem key_segment_round_trip:
  fixes st :: "('o, 'rq, 'w) iv_world"
  shows "requested_paths (made st (snd (GetVariable key options st))) =
           [''admin/ci/variables/'' @ PathEscape key]
       \<and> requested_paths (made st (snd (UpdateVariable key uopt options st))) =
           [''admin/ci/variables/'' @ PathEscape key]
       \<and> requested_paths (made st (snd (RemoveVariable key options st))) =
           [''admin/ci/variables/'' @ PathEscape key]
       \<and> last_segment (''admin/ci/variables/'' @ PathEscape key) = PathEscape key
       \<and> PathUnescape (last_segment (''admin/ci/variables/'' @ PathEscape key)) = Inr key"
proof -
  have seg: "last_segment (''admin/ci/variables/'' @ PathEscape key) = PathEscape key"
    using last_segment_append [of "escape key" "''admin/ci/variables''"] escape_no_slash [of key]
    by (simp add: PathEscape_def)
  have inv: "PathUnescape (PathEscape key) = Inr key"
    by (simp add: PathUnescape_def PathEscape_def unescape_escape)
  show ?thesis
    by (simp only: GetVariable_made UpdateVariable_made RemoveVariable_made
        requested_paths_round_trip seg inv simp_thms)
qed

text \<open>
  C3. For every key and every option struct, the one request \<open>UpdateVariable\<close>
  constructs carries that struct, and the struct is serialised to fields named
  \<open>value\<close>, \<open>description\<close>, \<open>masked\<close>, \<open>protected\<close>, \<open>raw\<close> and \<open>variable_type\<close>
  only: no field is named \<open>key\<close>. The key appears in the path alone.
\<close>

theorem update_payload_has_no_key:
  fixes st :: "('o, 'rq, 'w) iv_world"
  shows "requests (made st (snd (UpdateVariable key uopt options st))) =
           [(''PUT'', ''admin/ci/variables/'' @ PathEscape key, UpdateOpt uopt, options)]
       \<and> set (map fst (update_payload uopt)) \<subseteq>
           {''value'', ''description'', ''masked'', ''protected'', ''raw'', ''variable_type''}
       \<and> ''key'' \<notin> set (map fst (update_payload uopt))"
proof -
  have names: "set (map fst (update_payload uopt)) \<subseteq>
      {''value'', ''description'', ''masked'', ''protected'', ''raw'', ''variable_type''}"
    by (auto simp: update_payload_def UpdateInstanceVariableOptions_fields_def tagged_def
        split: option.splits)
  then have "''key'' \<notin> set (map fst (update_payload uopt))" by auto
  with names show ?thesis
    by (simp add: UpdateVariable_made requests_round_trip MethodPut_def)
qed

section \<open>What a method returns when a call to the client fails\<close>

lemma answer_failure:
  assumes "ev \<in> set (round_trip c method path opt options v w)" and "call_error ev = Some e"
  shows "answer rd (NewRequest_of c method path opt options) (\<lambda>req. fst (Do_of c req v w)) =
           (None, call_response ev, Some e) \<and>
         last (round_trip c method path opt options v w) = ev"
proof (cases "NewRequest_of c method path opt options")
  case (Inl e')
  with assms show ?thesis by (simp add: round_trip_def answer_def)
next
  case (Inr req)
  obtain v' resp err where d: "fst (Do_of c req v w) = (v', resp, err)"
    by (cases "fst (Do_of c req v w)") auto
  from assms Inr d have "ev = DoCall req v (v', resp, err)" and "err = Some e"
    by (auto simp: round_trip_def)
  with Inr d show ?thesis by (simp add: round_trip_def answer_def)
qed

lemma answer_error_origin:
  fixes c :: "('o, 'rq, 'w) Client"
  assumes "snd (snd (answer rd (NewRequest_of c method path opt options)
             (\<lambda>req. fst (Do_of c req v w)))) = Some e"
  shows "fst (answer rd (NewRequest_of c method path opt options)
             (\<lambda>req. fst (Do_of c req v w))) = None \<and>
         (\<exists>ev. ev \<in> set (round_trip c method path opt options v w) \<and> call_error ev = Some e)"
proof (cases "NewRequest_of c method path opt options")
  case (Inl e')
  with assms have "e' = e" by (simp add: answer_def)
  with Inl have "NewRequestCall method path opt options (Inl e)
      \<in> set (round_trip c method path opt options v w)"
    by (simp add: round_trip_def)
  moreover have "call_error (NewRequestCall method path opt options (Inl e) :: ('o, 'rq) call) = Some e"
    by simp
  ultimately show ?thesis using Inl by (auto simp: answer_def)
next
  case (Inr req)
  obtain v' resp err where d: "fst (Do_of c req v w) = (v', resp, err)"
    by (cases "fst (Do_of c req v w)") auto
  from assms Inr d have err: "err = Some e"
    by (cases err) (simp_all add: answer_def)
  with Inr d have "DoCall req v (v', resp, Some e) \<in> set (round_trip c method path opt options v w)"
    by (simp add: round_trip_def)
  moreover have "call_error (DoCall req v (v', resp, Some e) :: ('o, 'rq) call) = Some e"
    by simp
  ultimately show ?thesis using Inr d err by (auto simp: answer_def)
qed

lemma ListVariables_answer:
  "fst (ListVariables lopt options st) =
     answer the_Variables
       (NewRequest_of (InstanceVariablesService.client (receiver st)) MethodGet ''admin/ci/variables'' (ListOpt lopt) options)
       (\<lambda>req. fst (Do_of (InstanceVariablesService.client (receiver st)) req (DVariables None) (remote st)))"
  by (simp add: ListVariables_def NewRequest_def Do_def answer_def Let_def
      split: sum.split prod.split option.split)

lemma ListVariables_failure:
  "ev \<in> set (made st (snd (ListVariables lopt options st))) \<Longrightarrow> call_error ev = Some e \<Longrightarrow>
   fst (ListVariables lopt options st) = (None, call_response ev, Some e) \<and>
   last (made st (snd (ListVariables lopt options st))) = ev"
  unfolding ListVariables_made ListVariables_answer by (rule answer_failure)

lemma ListVariables_error_origin:
  "error_of (ListVariables lopt options st) = Some e \<Longrightarrow>
   result_of (ListVariables lopt options st) = None \<and>
   (\<exists>ev. ev \<in> set (made st (snd (ListVariables lopt options st))) \<and> call_error ev = Some e)"
  unfolding ListVariables_made ListVariables_answer error_of_def result_of_def by (rule answer_error_origin)

lemma GetVariable_answer:
  "fst (GetVariable key options st) =
     answer (\<lambda>v. Some (the_Variable v))
       (NewRequest_of (InstanceVariablesService.client (receiver st)) MethodGet (''admin/ci/variables/'' @ PathEscape key) NoOpt options)
       (\<lambda>req. fst (Do_of (InstanceVariablesService.client (receiver st)) req (DVariable new_InstanceVariable) (remote st)))"
  by (simp add: GetVariable_def NewRequest_def Do_def answer_def Let_def
      split: sum.split prod.split option.split)

lemma GetVariable_failure:
  "ev \<in> set (made st (snd (GetVariable key options st))) \<Longrightarrow> call_error ev = Some e \<Longrightarrow>
   fst (GetVariable key options st) = (None, call_response ev, Some e) \<and>
   last (made st (snd (GetVariable key options st))) = ev"
  unfolding GetVariable_made GetVariable_answer by (rule answer_failure)

lemma GetVariable_error_origin:
  "error_of (GetVariable key options st) = Some e \<Longrightarrow>
   result_of (GetVariable key options st) = None \<and>
   (\<exists>ev. ev \<in> set (made st (snd (GetVariable key options st))) \<and> call_error ev = Some e)"
  unfolding GetVariable_made GetVariable_answer error_of_def result_of_def by (rule answer_error_origin)

lemma CreateVariable_answer:
  "fst (CreateVariable copt options st) =
     answer (\<lambda>v. Some (the_Variable v))
       (NewRequest_of (InstanceVariablesService.client (receiver st)) MethodPost ''admin/ci/variables'' (CreateOpt copt) options)
       (\<lambda>req. fst (Do_of (InstanceVariablesService.client (receiver st)) req (DVariable new_InstanceVariable) (remote st)))"
  by (simp add: CreateVariable_def NewRequest_def Do_def answer_def Let_def
      split: sum.split prod.split option.split)

lemma CreateVariable_failure:
  "ev \<in> set (made st (snd (CreateVariable copt options st))) \<Longrightarrow> call_error ev = Some e \<Longrightarrow>
   fst (CreateVariable copt options st) = (None, call_response ev, Some e) \<and>
   last (made st (snd (CreateVariable copt options st))) = ev"
  unfolding CreateVariable_made CreateVariable_answer by (rule answer_failure)

lemma CreateVariable_error_origin:
  "error_of (CreateVariable copt options st) = Some e \<Longrightarrow>
   result_of (CreateVariable copt options st) = None \<and>
   (\<exists>ev. ev \<in> set (made st (snd (CreateVariable copt options st))) \<and> call_error ev = Some e)"
  unfolding CreateVariable_made CreateVariable_answer error_of_def result_of_def by (rule answer_error_origin)

lemma UpdateVariable_answer:
  "fst (UpdateVariable key uopt options st) =
     answer (\<lambda>v. Some (the_Variable v))
       (NewRequest_of (InstanceVariablesService.client (receiver st)) MethodPut (''admin/ci/variables/'' @ PathEscape key) (UpdateOpt uopt) options)
       (\<lambda>req. fst (Do_of (InstanceVariablesService.client (receiver st)) req (DVariable new_InstanceVariable) (remote st)))"
  by (simp add: UpdateVariable_def NewRequest_def Do_def answer_def Let_def
      split: sum.split prod.split option.split)

lemma UpdateVariable_failure:
  "ev \<in> set (made st (snd (UpdateVariable key uopt options st))) \<Longrightarrow> call_error ev = Some e \<Longrightarrow>
   fst (UpdateVariable key uopt options st) = (None, call_response ev, Some e) \<and>
   last (made st (snd (UpdateVariable key uopt options st))) = ev"
  unfolding UpdateVariable_made UpdateVariable_answer by (rule answer_failure)

lemma UpdateVariable_error_origin:
  "error_of (UpdateVariable key uopt options st) = Some e \<Longrightarrow>
   result_of (UpdateVariable key uopt options st) = None \<and>
   (\<exists>ev. ev \<in> set (made st (snd (UpdateVariable key uopt options st))) \<and> call_error ev = Some e)"
  unfolding UpdateVariable_made UpdateVariable_answer error_of_def result_of_def by (rule answer_error_origin)

lemma GetQueueMetrics_answer:
  "fst (GetQueueMetrics options sk) =
     answer (\<lambda>v. Some (the_QueueMetrics v))
       (NewRequest_of (SidekiqService.client (receiver sk)) MethodGet ''/sidekiq/queue_metrics'' NoOpt options)
       (\<lambda>req. fst (Do_of (SidekiqService.client (receiver sk)) req (DQueueMetrics new_QueueMetrics) (remote sk)))"
  by (simp add: GetQueueMetrics_def NewRequest_def Do_def answer_def Let_def
      split: sum.split prod.split option.split)

lemma GetQueueMetrics_failure:
  "ev \<in> set (made sk (snd (GetQueueMetrics options sk))) \<Longrightarrow> call_error ev = Some e \<Longrightarrow>
   fst (GetQueueMetrics options sk) = (None, call_response ev, Some e) \<and>
   last (made sk (snd (GetQueueMetrics options sk))) = ev"
  unfolding GetQueueMetrics_made GetQueueMetrics_answer by (rule answer_failure)

lemma GetQueueMetrics_error_origin:
  "error_of (GetQueueMetrics options sk) = Some e \<Longrightarrow>
   result_of (GetQueueMetrics options sk) = None \<and>
   (\<exists>ev. ev \<in> set (made sk (snd (GetQueueMetrics options sk))) \<and> call_error ev = Some e)"
  unfolding GetQueueMetrics_made GetQueueMetrics_answer error_of_def result_of_def by (rule answer_error_origin)

lemma GetProcessMetrics_answer:
  "fst (GetProcessMetrics options sk) =
     answer (\<lambda>v. Some (the_ProcessMetrics v))
       (NewRequest_of (SidekiqService.client (receiver sk)) MethodGet ''/sidekiq/process_metrics'' NoOpt options)
       (\<lambda>req. fst (Do_of (SidekiqService.client (receiver sk)) req (DProcessMetrics new_ProcessMetrics) (remote sk)))"
  by (simp add: GetProcessMetrics_def NewRequest_def Do_def answer_def Let_def
      split: sum.split prod.split option.split)

lemma GetProcessMetrics_failure:
  "ev \<in> set (made sk (snd (GetProcessMetrics options sk))) \<Longrightarrow> call_error ev = Some e \<Longrightarrow>
   fst (GetProcessMetrics options sk) = (None, call_response ev, Some e) \<and>
   last (made sk (snd (GetProcessMetrics options sk))) = ev"
  unfolding GetProcessMetrics_made GetProcessMetrics_answer by (rule answer_failure)

lemma GetProcessMetrics_error_origin:
  "error_of (GetProcessMetrics options sk) = Some e \<Longrightarrow>
   result_of (GetProcessMetrics options sk) = None \<and>
   (\<exists>ev. ev \<in> set (made sk (snd (GetProcessMetrics options sk))) \<and> call_error ev = Some e)"
  unfolding GetProcessMetrics_made GetProcessMetrics_answer error_of_def result_of_def by (rule answer_error_origin)

lemma GetJobStats_answer:
  "fst (GetJobStats options sk) =
     answer (\<lambda>v. Some (the_JobStats v))
       (NewRequest_of (SidekiqService.client (receiver sk)) MethodGet ''/sidekiq/job_stats'' NoOpt options)
       (\<lambda>req. fst (Do_of (SidekiqService.client (receiver sk)) req (DJobStats new_JobStats) (remote sk)))"
  by (simp add: GetJobStats_def NewRequest_def Do_def answer_def Let_def
      split: sum.split prod.split option.split)

lemma GetJobStats_failure:
  "ev \<in> set (made sk (snd (GetJobStats options sk))) \<Longrightarrow> call_error ev = Some e \<Longrightarrow>
   fst (GetJobStats options sk) = (None, call_response ev, Some e) \<and>
   last (made sk (snd (GetJobStats options sk))) = ev"
  unfolding GetJobStats_made GetJobStats_answer by (rule answer_failure)

lemma GetJobStats_error_origin:
  "error_of (GetJobStats options sk) = Some e \<Longrightarrow>
   result_of (GetJobStats options sk) = None \<and>
   (\<exists>ev. ev \<in> set (made sk (snd (GetJobStats options sk))) \<and> call_error ev = Some e)"
  unfolding GetJobStats_made GetJobStats_answer error_of_def result_of_def by (rule answer_error_origin)

lemma GetCompoundMetrics_answer:
  "fst (GetCompoundMetrics options sk) =
     answer (\<lambda>v. Some (the_CompoundMetrics v))
       (NewRequest_of (SidekiqService.client (receiver sk)) MethodGet ''/sidekiq/compound_metrics'' NoOpt options)
       (\<lambda>req. fst (Do_of (SidekiqService.client (receiver sk)) req (DCompoundMetrics new_CompoundMetrics) (remote sk)))"
  by (simp add: GetCompoundMetrics_def NewRequest_def Do_def answer_def Let_def
      split: sum.split prod.split option.split)

lemma GetCompoundMetrics_failure:
  "ev \<in> set (made sk (snd (GetCompoundMetrics options sk))) \<Longrightarrow> call_error ev = Some e \<Longrightarrow>
   fst (GetCompoundMetrics options sk) = (None, call_response ev, Some e) \<and>
   last (made sk (snd (GetCompoundMetrics options sk))) = ev"
  unfolding GetCompoundMetrics_made GetCompoundMetrics_answer by (rule answer_failure)

lemma GetCompoundMetrics_error_origin:
  "error_of (GetCompoundMetrics options sk) = Some e \<Longrightarrow>
   result_of (GetCompoundMetrics options sk) = None \<and>
   (\<exists>ev. ev \<in> set (made sk (snd (GetCompoundMetrics options sk))) \<and> call_error ev = Some e)"
  unfolding GetCompoundMetrics_made GetCompoundMetrics_answer error_of_def result_of_def by (rule answer_error_origin)

lemma RemoveVariable_answer:
  "fst (RemoveVariable key options st) =
     (case NewRequest_of (InstanceVariablesService.client (receiver st)) MethodDelete
             (''admin/ci/variables/'' @ PathEscape key) NoOpt options of
        Inl e \<Rightarrow> (None, Some e)
      | Inr req \<Rightarrow>
          snd (fst (Do_of (InstanceVariablesService.client (receiver st)) req DNil (remote st))))"
  by (simp add: RemoveVariable_def NewRequest_def Do_def Let_def
      split: sum.split prod.split option.split)

lemma RemoveVariable_failure:
  assumes "ev \<in> set (made st (snd (RemoveVariable key options st)))"
    and "call_error ev = Some e"
  shows "fst (RemoveVariable key options st) = (call_response ev, Some e) \<and>
         last (made st (snd (RemoveVariable key options st))) = ev"
proof (cases "NewRequest_of (InstanceVariablesService.client (receiver st)) MethodDelete
    (''admin/ci/variables/'' @ PathEscape key) NoOpt options")
  case (Inl e')
  with assms show ?thesis
    by (simp add: RemoveVariable_made RemoveVariable_answer round_trip_def)
next
  case (Inr req)
  obtain v' resp err where
    d: "fst (Do_of (InstanceVariablesService.client (receiver st)) req DNil (remote st)) =
          (v', resp, err)"
    by (cases "fst (Do_of (InstanceVariablesService.client (receiver st)) req DNil (remote st))")
      auto
  from assms Inr d have "ev = DoCall req DNil (v', resp, err)" and "err = Some e"
    by (auto simp: RemoveVariable_made round_trip_def)
  with Inr d show ?thesis
    by (simp add: RemoveVariable_made RemoveVariable_answer round_trip_def)
qed

lemma RemoveVariable_error_origin:
  fixes st :: "('o, 'rq, 'w) iv_world"
  assumes "snd (fst (RemoveVariable key options st)) = Some e"
  shows "\<exists>ev. ev \<in> set (made st (snd (RemoveVariable key options st))) \<and>
           call_error ev = Some e"
proof (cases "NewRequest_of (InstanceVariablesService.client (receiver st)) MethodDelete
    (''admin/ci/variables/'' @ PathEscape key) NoOpt options")
  case (Inl e')
  with assms have "e' = e" by (simp add: RemoveVariable_answer)
  with Inl have "NewRequestCall MethodDelete (''admin/ci/variables/'' @ PathEscape key) NoOpt
      options (Inl e) \<in> set (made st (snd (RemoveVariable key options st)))"
    by (simp add: RemoveVariable_made round_trip_def)
  moreover have "call_error (NewRequestCall MethodDelete
      (''admin/ci/variables/'' @ PathEscape key) NoOpt options (Inl e) :: ('o, 'rq) call) = Some e"
    by simp
  ultimately show ?thesis by blast
next
  case (Inr req)
  obtain v' resp err where
    d: "fst (Do_of (InstanceVariablesService.client (receiver st)) req DNil (remote st)) =
          (v', resp, err)"
    by (cases "fst (Do_of (InstanceVariablesService.client (receiver st)) req DNil (remote st))")
      auto
  from assms Inr d have err: "err = Some e" by (simp add: RemoveVariable_answer)
  with Inr d have "DoCall req DNil (v', resp, Some e)
      \<in> set (made st (snd (RemoveVariable key options st)))"
    by (simp add: RemoveVariable_made round_trip_def)
  moreover have "call_error (DoCall req DNil (v', resp, Some e) :: ('o, 'rq) call) = Some e"
    by simp
  ultimately show ?thesis by blast
qed

section \<open>Errors are returned as they are\<close>

text \<open>
  C4. For every method of both services: if a call to the client, the construction of
  the request or its execution, returns an error \<open>e\<close>, the method returns that very
  error and a \<open>nil\<close> result, and the failing call is the last call it makes (nothing
  is tried again). Conversely every error a method returns is the error of one of
  its calls to the client, and comes with a \<open>nil\<close> result, whatever \<open>Do\<close> left
  behind the pointer. \<open>RemoveVariable\<close> has no decoded result; it returns the
  error of the failing call.
\<close>

theorem errors_returned_verbatim:
  fixes st :: "('o, 'rq, 'w) iv_world" and sk :: "('o, 'rq, 'w) sk_world"
    and ev :: "('o, 'rq) call"
  assumes "call_error ev = Some e"
  shows "(ev \<in> set (made st (snd (ListVariables lopt options st))) \<longrightarrow>
          result_of (ListVariables lopt options st) = None \<and> error_of (ListVariables lopt options st) = Some e \<and>
          last (made st (snd (ListVariables lopt options st))) = ev)
       \<and> (ev \<in> set (made st (snd (GetVariable key options st))) \<longrightarrow>
          result_of (GetVariable key options st) = None \<and> error_of (GetVariable key options st) = Some e \<and>
          last (made st (snd (GetVariable key options st))) = ev)
       \<and> (ev \<in> set (made st (snd (CreateVariable copt options st))) \<longrightarrow>
          result_of (CreateVariable copt options st) = None \<and> error_of (CreateVariable copt options st) = Some e \<and>
          last (made st (snd (CreateVariable copt options st))) = ev)
       \<and> (ev \<in> set (made st (snd (UpdateVariable key uopt options st))) \<longrightarrow>
          result_of (UpdateVariable key uopt options st) = None \<and> error_of (UpdateVariable key uopt options st) = Some e \<and>
          last (made st (snd (UpdateVariable key uopt options st))) = ev)
       \<and> (ev \<in> set (made st (snd (RemoveVariable key options st))) \<longrightarrow>
          snd (fst (RemoveVariable key options st)) = Some e \<and> last (made st (snd (RemoveVariable key options st))) = ev)
       \<and> (ev \<in> set (made sk (snd (GetQueueMetrics options sk))) \<longrightarrow>
          result_of (GetQueueMetrics options sk) = None \<and> error_of (GetQueueMetrics options sk) = Some e \<and>
          last (made sk (snd (GetQueueMetrics options sk))) = ev)
       \<and> (ev \<in> set (made sk (snd (GetProcessMetrics options sk))) \<longrightarrow>
          result_of (GetProcessMetrics options sk) = None \<and> error_of (GetProcessMetrics options sk) = Some e \<and>
          last (made sk (snd (GetProcessMetrics options sk))) = ev)
       \<and> (ev \<in> set (made sk (snd (GetJobStats options sk))) \<longrightarrow>
          result_of (GetJobStats options sk) = None \<and> error_of (GetJobStats options sk) = Some e \<and>
          last (made sk (snd (GetJobStats options sk))) = ev)
       \<and> (ev \<in> set (made sk (snd (GetCompoundMetrics options sk))) \<longrightarrow>
          result_of (GetCompoundMetrics options sk) = None \<and> error_of (GetCompoundMetrics options sk) = Some e \<and>
          last (made sk (snd (GetCompoundMetrics options sk))) = ev)
       \<and> (\<forall>e'. error_of (ListVariables lopt options st) = Some e' \<longrightarrow>
          result_of (ListVariables lopt options st) = None \<and>
          (\<exists>ev'. ev' \<in> set (made st (snd (ListVariables lopt options st))) \<and> call_error ev' = Some e'))
       \<and> (\<forall>e'. error_of (GetVariable key options st) = Some e' \<longrightarrow>
          result_of (GetVariable key options st) = None \<and>
          (\<exists>ev'. ev' \<in> set (made st (snd (GetVariable key options st))) \<and> call_error ev' = Some e'))
       \<and> (\<forall>e'. error_of (CreateVariable copt options st) = Some e' \<longrightarrow>
          result_of (CreateVariable copt options st) = None \<and>
          (\<exists>ev'. ev' \<in> set (made st (snd (CreateVariable copt options st))) \<and> call_error ev' = Some e'))
       \<and> (\<forall>e'. error_of (UpdateVariable key uopt options st) = Some e' \<longrightarrow>
          result_of (UpdateVariable key uopt options st) = None \<and>
          (\<exists>ev'. ev' \<in> set (made st (snd (UpdateVariable key uopt options st))) \<and> call_error ev' = Some e'))
       \<and> (\<forall>e'. snd (fst (RemoveVariable key options st)) = Some e' \<longrightarrow>
          (\<exists>ev'. ev' \<in> set (made st (snd (RemoveVariable key options st))) \<and> call_error ev' = Some e'))
       \<and> (\<forall>e'. error_of (GetQueueMetrics options sk) = Some e' \<longrightarrow>
          result_of (GetQueueMetrics options sk) = None \<and>
          (\<exists>ev'. ev' \<in> set (made sk (snd (GetQueueMetrics options sk))) \<and> call_error ev' = Some e'))
       \<and> (\<forall>e'. error_of (GetProcessMetrics options sk) = Some e' \<longrightarrow>
          result_of (GetProcessMetrics options sk) = None \<and>
          (\<exists>ev'. ev' \<in> set (made sk (snd (GetProcessMetrics options sk))) \<and> call_error ev' = Some e'))
       \<and> (\<forall>e'. error_of (GetJobStats options sk) = Some e' \<longrightarrow>
          result_of (GetJobStats options sk) = None \<and>
          (\<exists>ev'. ev' \<in> set (made sk (snd (GetJobStats options sk))) \<and> call_error ev' = Some e'))
       \<and> (\<forall>e'. error_of (GetCompoundMetrics options sk) = Some e' \<longrightarrow>
          result_of (GetCompoundMetrics options sk) = None \<and>
          (\<exists>ev'. ev' \<in> set (made sk (snd (GetCompoundMetrics options sk))) \<and> call_error ev' = Some e'))"
proof -
  have a1: "ev \<in> set (made st (snd (ListVariables lopt options st))) \<longrightarrow>
          result_of (ListVariables lopt options st) = None \<and> error_of (ListVariables lopt options st) = Some e \<and>
          last (made st (snd (ListVariables lopt options st))) = ev"
  proof
    assume m: "ev \<in> set (made st (snd (ListVariables lopt options st)))"
    from ListVariables_failure [OF m assms] show "result_of (ListVariables lopt options st) = None \<and> error_of (ListVariables lopt options st) = Some e \<and>
          last (made st (snd (ListVariables lopt options st))) = ev"
      by (simp add: result_of_def error_of_def)
  qed
  have a2: "ev \<in> set (made st (snd (GetVariable key options st))) \<longrightarrow>
          result_of (GetVariable key options st) = None \<and> error_of (GetVariable key options st) = Some e \<and>
          last (made st (snd (GetVariable key options st))) = ev"
  proof
    assume m: "ev \<in> set (made st (snd (GetVariable key options st)))"
    from GetVariable_failure [OF m assms] show "result_of (GetVariable key options st) = None \<and> error_of (GetVariable key options st) = Some e \<and>
          last (made st (snd (GetVariable key options st))) = ev"
      by (simp add: result_of_def error_of_def)
  qed
  have a3: "ev \<in> set (made st (snd (CreateVariable copt options st))) \<longrightarrow>
          result_of (CreateVariable copt options st) = None \<and> error_of (CreateVariable copt options st) = Some e \<and>
          last (made st (snd (CreateVariable copt options st))) = ev"
  proof
    assume m: "ev \<in> set (made st (snd (CreateVariable copt options st)))"
    from CreateVariable_failure [OF m assms] show "result_of (CreateVariable copt options st) = None \<and> error_of (CreateVariable copt options st) = Some e \<and>
          last (made st (snd (CreateVariable copt options st))) = ev"
      by (simp add: result_of_def error_of_def)
  qed
  have a4: "ev \<in> set (made st (snd (UpdateVariable key uopt options st))) \<longrightarrow>
          result_of (UpdateVariable key uopt options st) = None \<and> error_of (UpdateVariable key uopt options st) = Some e \<and>
          last (made st (snd (UpdateVariable key uopt options st))) = ev"
  proof
    assume m: "ev \<in> set (made st (snd (UpdateVariable key uopt options st)))"
    from UpdateVariable_failure [OF m assms] show "result_of (UpdateVariable key uopt options st) = None \<and> error_of (UpdateVariable key uopt options st) = Some e \<and>
          last (made st (snd (UpdateVariable key uopt options st))) = ev"
      by (simp add: result_of_def error_of_def)
  qed
  have a5: "ev \<in> set (made st (snd (RemoveVariable key options st))) \<longrightarrow>
          snd (fst (RemoveVariable key options st)) = Some e \<and> last (made st (snd (RemoveVariable key options st))) = ev"
  proof
    assume m: "ev \<in> set (made st (snd (RemoveVariable key options st)))"
    from RemoveVariable_failure [OF m assms] show "snd (fst (RemoveVariable key options st)) = Some e \<and> last (made st (snd (RemoveVariable key options st))) = ev"
      by (simp add: result_of_def error_of_def)
  qed
  have a6: "ev \<in> set (made sk (snd (GetQueueMetrics options sk))) \<longrightarrow>
          result_of (GetQueueMetrics options sk) = None \<and> error_of (GetQueueMetrics options sk) = Some e \<and>
          last (made sk (snd (GetQueueMetrics options sk))) = ev"
  proof
    assume m: "ev \<in> set (made sk (snd (GetQueueMetrics options sk)))"
    from GetQueueMetrics_failure [OF m assms] show "result_of (GetQueueMetrics options sk) = None \<and> error_of (GetQueueMetrics options sk) = Some e \<and>
          last (made sk (snd (GetQueueMetrics options sk))) = ev"
      by (simp add: result_of_def error_of_def)
  qed
  have a7: "ev \<in> set (made sk (snd (GetProcessMetrics options sk))) \<longrightarrow>
          result_of (GetProcessMetrics options sk) = None \<and> error_of (GetProcessMetrics options sk) = Some e \<and>
          last (made sk (snd (GetProcessMetrics options sk))) = ev"
  proof
    assume m: "ev \<in> set (made sk (snd (GetProcessMetrics options sk)))"
    from GetProcessMetrics_failure [OF m assms] show "result_of (GetProcessMetrics options sk) = None \<and> error_of (GetProcessMetrics options sk) = Some e \<and>
          last (made sk (snd (GetProcessMetrics options sk))) = ev"
      by (simp add: result_of_def error_of_def)
  qed
  have a8: "ev \<in> set (made sk (snd (GetJobStats options sk))) \<longrightarrow>
          result_of (GetJobStats options sk) = None \<and> error_of (GetJobStats options sk) = Some e \<and>
          last (made sk (snd (GetJobStats options sk))) = ev"
  proof
    assume m: "ev \<in> set (made sk (snd (GetJobStats options sk)))"
    from GetJobStats_failure [OF m assms] show "result_of (GetJobStats options sk) = None \<and> error_of (GetJobStats options sk) = Some e \<and>
          last (made sk (snd (GetJobStats options sk))) = ev"
      by (simp add: result_of_def error_of_def)
  qed
  have a9: "ev \<in> set (made sk (snd (GetCompoundMetrics options sk))) \<longrightarrow>
          result_of (GetCompoundMetrics options sk) = None \<and> error_of (GetCompoundMetrics options sk) = Some e \<and>
          last (made sk (snd (GetCompoundMetrics options sk))) = ev"
  proof
    assume m: "ev \<in> set (made sk (snd (GetCompoundMetrics options sk)))"
    from GetCompoundMetrics_failure [OF m assms] show "result_of (GetCompoundMetrics options sk) = None \<and> error_of (GetCompoundMetrics options sk) = Some e \<and>
          last (made sk (snd (GetCompoundMetrics options sk))) = ev"
      by (simp add: result_of_def error_of_def)
  qed
  have a10: "\<forall>e'. error_of (ListVariables lopt options st) = Some e' \<longrightarrow>
          result_of (ListVariables lopt options st) = None \<and>
          (\<exists>ev'. ev' \<in> set (made st (snd (ListVariables lopt options st))) \<and> call_error ev' = Some e')"
    by (intro allI impI) (rule ListVariables_error_origin)
  have a11: "\<forall>e'. error_of (GetVariable key options st) = Some e' \<longrightarrow>
          result_of (GetVariable key options st) = None \<and>
          (\<exists>ev'. ev' \<in> set (made st (snd (GetVariable key options st))) \<and> call_error ev' = Some e')"
    by (intro allI impI) (rule GetVariable_error_origin)
  have a12: "\<forall>e'. error_of (CreateVariable copt options st) = Some e' \<longrightarrow>
          result_of (CreateVariable copt options st) = None \<and>
          (\<exists>ev'. ev' \<in> set (made st (snd (CreateVariable copt options st))) \<and> call_error ev' = Some e')"
    by (intro allI impI) (rule CreateVariable_error_origin)
  have a13: "\<forall>e'. error_of (UpdateVariable key uopt options st) = Some e' \<longrightarrow>
          result_of (UpdateVariable key uopt options st) = None \<and>
          (\<exists>ev'. ev' \<in> set (made st (snd (UpdateVariable key uopt options st))) \<and> call_error ev' = Some e')"
    by (intro allI impI) (rule UpdateVariable_error_origin)
  have a14: "\<forall>e'. snd (fst (RemoveVariable key options st)) = Some e' \<longrightarrow>
          (\<exists>ev'. ev' \<in> set (made st (snd (RemoveVariable key options st))) \<and> call_error ev' = Some e')"
    by (intro allI impI) (rule RemoveVariable_error_origin)
  have a15: "\<forall>e'. error_of (GetQueueMetrics options sk) = Some e' \<longrightarrow>
          result_of (GetQueueMetrics options sk) = None \<and>
          (\<exists>ev'. ev' \<in> set (made sk (snd (GetQueueMetrics options sk))) \<and> call_error ev' = Some e')"
    by (intro allI impI) (rule GetQueueMetrics_error_origin)
  have a16: "\<forall>e'. error_of (GetProcessMetrics options sk) = Some e' \<longrightarrow>
          result_of (GetProcessMetrics options sk) = None \<and>
          (\<exists>ev'. ev' \<in> set (made sk (snd (GetProcessMetrics options sk))) \<and> call_error ev' = Some e')"
    by (intro allI impI) (rule GetProcessMetrics_error_origin)
  have a17: "\<forall>e'. error_of (GetJobStats options sk) = Some e' \<longrightarrow>
          result_of (GetJobStats options sk) = None \<and>
          (\<exists>ev'. ev' \<in> set (made sk (snd (GetJobStats options sk))) \<and> call_error ev' = Some e')"
    by (intro allI impI) (rule GetJobStats_error_origin)
  have a18: "\<forall>e'. error_of (GetCompoundMetrics options sk) = Some e' \<longrightarrow>
          result_of (GetCompoundMetrics options sk) = None \<and>
          (\<exists>ev'. ev' \<in> set (made sk (snd (GetCompoundMetrics options sk))) \<and> call_error ev' = Some e')"
    by (intro allI impI) (rule GetCompoundMetrics_error_origin)
  show ?thesis
    by (intro conjI; fact)
qed

theorem errors_returned_verbatim_witness:
  "call_error (NewRequestCall ''GET'' ''admin/ci/variables/a%2Fb'' NoOpt [7]
       (Inl (RequestError ''invalid modifier'')) :: (nat, string \<times> string) call) =
     Some (RequestError ''invalid modifier'')
   \<and> NewRequestCall ''GET'' ''admin/ci/variables/a%2Fb'' NoOpt [7]
       (Inl (RequestError ''invalid modifier''))
     \<in> set (made (iv_start refusing_client)
         (snd (GetVariable ''a/b'' [7] (iv_start refusing_client))))
   \<and> result_of (GetVariable ''a/b'' [7] (iv_start refusing_client)) = None
   \<and> error_of (GetVariable ''a/b'' [7] (iv_start refusing_client)) =
       Some (RequestError ''invalid modifier'')
   \<and> call_error (DoCall (''GET'', ''/sidekiq/job_stats'') (DJobStats new_JobStats)
       (DJobStats new_JobStats, Some \<lparr>StatusCode = 500\<rparr>, Some (TransportError (Some 500)))
       :: (nat, string \<times> string) call) = Some (TransportError (Some 500))
   \<and> DoCall (''GET'', ''/sidekiq/job_stats'') (DJobStats new_JobStats)
       (DJobStats new_JobStats, Some \<lparr>StatusCode = 500\<rparr>, Some (TransportError (Some 500)))
     \<in> set (made (sk_start failing_client) (snd (GetJobStats [] (sk_start failing_client))))
   \<and> result_of (GetJobStats [] (sk_start failing_client)) = None
   \<and> error_of (GetJobStats [] (sk_start failing_client)) = Some (TransportError (Some 500))"
proof -
  let ?ev1 = "NewRequestCall ''GET'' ''admin/ci/variables/a%2Fb'' NoOpt [7]
       (Inl (RequestError ''invalid modifier'')) :: (nat, string \<times> string) call"
  let ?ev2 = "DoCall (''GET'', ''/sidekiq/job_stats'') (DJobStats new_JobStats)
       (DJobStats new_JobStats, Some \<lparr>StatusCode = 500\<rparr>, Some (TransportError (Some 500)))
       :: (nat, string \<times> string) call"
  have h1: "call_error ?ev1 = Some (RequestError ''invalid modifier'')" by simp
  have h2: "call_error ?ev2 = Some (TransportError (Some 500))" by simp
  have esc: "PathEscape ''a/b'' = ''a%2Fb''"
    by (simp add: PathEscape_def shouldEscape_def upperhex_def)
  have m1: "?ev1 \<in> set (made (iv_start refusing_client)
      (snd (GetVariable ''a/b'' [7] (iv_start refusing_client))))"
    by (simp add: GetVariable_made round_trip_def iv_start_def refusing_client_def esc
        MethodGet_def)
  have m2: "?ev2 \<in> set (made (sk_start failing_client)
      (snd (GetJobStats [] (sk_start failing_client))))"
    by (simp add: GetJobStats_made round_trip_def sk_start_def failing_client_def MethodGet_def)
  have c1: "result_of (GetVariable ''a/b'' [7] (iv_start refusing_client)) = None
      \<and> error_of (GetVariable ''a/b'' [7] (iv_start refusing_client)) =
        Some (RequestError ''invalid modifier'')"
    using errors_returned_verbatim [OF h1, where st = "iv_start refusing_client"
        and key = "''a/b''" and options = "[7]"] m1
    by blast
  have c2: "result_of (GetJobStats [] (sk_start failing_client)) = None
      \<and> error_of (GetJobStats [] (sk_start failing_client)) = Some (TransportError (Some 500))"
    using errors_returned_verbatim [OF h2, where sk = "sk_start failing_client"
        and options = "[]"] m2
    by blast
  from h1 h2 m1 m2 c1 c2 show ?thesis by blast
qed

section \<open>The response metadata tells the failing stage\<close>




section \<open>The wire contract of the Sidekiq service\<close>

text \<open>
  C7. Each of the four Sidekiq accessors constructs exactly one request: a GET of its
  fixed path that carries nothing, with the caller's request modifiers as they were
  given. It executes that request at most once, and nothing else: once when the
  request could be constructed, with a new value of its result type as the target.
\<close>

theorem sidekiq_wire_contract:
  fixes sk :: "('o, 'rq, 'w) sk_world"
  shows "requests (made sk (snd (GetQueueMetrics options sk))) = [(''GET'', ''/sidekiq/queue_metrics'', NoOpt, options)]
       \<and> executions (made sk (snd (GetQueueMetrics options sk))) =
           (case NewRequest_of (SidekiqService.client (receiver sk)) ''GET'' ''/sidekiq/queue_metrics'' NoOpt options of
              Inl e \<Rightarrow> []
            | Inr req \<Rightarrow> [(req, DQueueMetrics new_QueueMetrics)])
       \<and> requests (made sk (snd (GetProcessMetrics options sk))) = [(''GET'', ''/sidekiq/process_metrics'', NoOpt, options)]
       \<and> executions (made sk (snd (GetProcessMetrics options sk))) =
           (case NewRequest_of (SidekiqService.client (receiver sk)) ''GET'' ''/sidekiq/process_metrics'' NoOpt options of
              Inl e \<Rightarrow> []
            | Inr req \<Rightarrow> [(req, DProcessMetrics new_ProcessMetrics)])
       \<and> requests (made sk (snd (GetJobStats options sk))) = [(''GET'', ''/sidekiq/job_stats'', NoOpt, options)]
       \<and> executions (made sk (snd (GetJobStats options sk))) =
           (case NewRequest_of (SidekiqService.client (receiver sk)) ''GET'' ''/sidekiq/job_stats'' NoOpt options of
              Inl e \<Rightarrow> []
            | Inr req \<Rightarrow> [(req, DJobStats new_JobStats)])
       \<and> requests (made sk (snd (GetCompoundMetrics options sk))) = [(''GET'', ''/sidekiq/compound_metrics'', NoOpt, options)]
       \<and> executions (made sk (snd (GetCompoundMetrics options sk))) =
           (case NewRequest_of (SidekiqService.client (receiver sk)) ''GET'' ''/sidekiq/compound_metrics'' NoOpt options of
              Inl e \<Rightarrow> []
            | Inr req \<Rightarrow> [(req, DCompoundMetrics new_CompoundMetrics)])"
  by (simp add: GetQueueMetrics_made GetProcessMetrics_made GetJobStats_made
      GetCompoundMetrics_made requests_round_trip executions_round_trip MethodGet_def)


section \<open>The services hold no state of their own\<close>

lemma ListVariables_receiver: "receiver (snd (ListVariables lopt options st)) = receiver st"
  by (simp add: ListVariables_def NewRequest_def Do_def Let_def
      split: sum.split prod.split option.split)

lemma GetVariable_receiver: "receiver (snd (GetVariable key options st)) = receiver st"
  by (simp add: GetVariable_def NewRequest_def Do_def Let_def
      split: sum.split prod.split option.split)

lemma CreateVariable_receiver: "receiver (snd (CreateVariable copt options st)) = receiver st"
  by (simp add: CreateVariable_def NewRequest_def Do_def Let_def
      split: sum.split prod.split option.split)

lemma UpdateVariable_receiver: "receiver (snd (UpdateVariable key uopt options st)) = receiver st"
  by (simp add: UpdateVariable_def NewRequest_def Do_def Let_def
      split: sum.split prod.split option.split)

lemma RemoveVariable_receiver: "receiver (snd (RemoveVariable key options st)) = receiver st"
  by (simp add: RemoveVariable_def NewRequest_def Do_def Let_def
      split: sum.split prod.split option.split)

lemma GetQueueMetrics_receiver: "receiver (snd (GetQueueMetrics options sk)) = receiver sk"
  by (simp add: GetQueueMetrics_def NewRequest_def Do_def Let_def
      split: sum.split prod.split option.split)

lemma GetProcessMetrics_receiver: "receiver (snd (GetProcessMetrics options sk)) = receiver sk"
  by (simp add: GetProcessMetrics_def NewRequest_def Do_def Let_def
      split: sum.split prod.split option.split)

lemma GetJobStats_receiver: "receiver (snd (GetJobStats options sk)) = receiver sk"
  by (simp add: GetJobStats_def NewRequest_def Do_def Let_def
      split: sum.split prod.split option.split)

lemma GetCompoundMetrics_receiver: "receiver (snd (GetCompoundMetrics options sk)) = receiver sk"
  by (simp add: GetCompoundMetrics_def NewRequest_def Do_def Let_def
      split: sum.split prod.split option.split)

text \<open>
  C9. Every method of both services leaves the service object it is called on as it
  was: after the call, successful or failed, the receiver is the receiver before the
  call. (The receiver has one field, the client, which the methods read and never
  assign.)
\<close>

theorem service_unchanged:
  fixes st :: "('o, 'rq, 'w) iv_world" and sk :: "('o, 'rq, 'w) sk_world"
  shows "receiver (snd (ListVariables lopt options st)) = receiver st 
       \<and> receiver (snd (GetVariable key options st)) = receiver st 
       \<and> receiver (snd (CreateVariable copt options st)) = receiver st 
       \<and> receiver (snd (UpdateVariable key uopt options st)) = receiver st 
       \<and> receiver (snd (RemoveVariable key options st)) = receiver st 
       \<and> receiver (snd (GetQueueMetrics options sk)) = receiver sk 
       \<and> receiver (snd (GetProcessMetrics options sk)) = receiver sk 
       \<and> receiver (snd (GetJobStats options sk)) = receiver sk 
       \<and> receiver (snd (GetCompoundMetrics options sk)) = receiver sk"
  by (simp only: ListVariables_receiver GetVariable_receiver CreateVariable_receiver UpdateVariable_receiver RemoveVariable_receiver GetQueueMetrics_receiver GetProcessMetrics_receiver GetJobStats_receiver GetCompoundMetrics_receiver simp_thms)

end
